theory Spec2Isabelle
  imports Complex_Main
begin

section \<open>The paper trading bot: data model\<close>

text \<open>
  The embedding follows \<^verbatim>\<open>paper_trading_bot.py\<close>. A Python float is a \<^typ>\<open>real\<close>.
  In \<^verbatim>\<open>TradeEngine\<close>, where the result of a comparison decides the signal, every
  arithmetic operation is followed by the rounding to the nearest double, as the machine
  does it. In \<^verbatim>\<open>PaperTradeSimulator\<close> the operations are those of the reals: what is
  proved there is which branch is taken, which fields a call writes and the algebraic form
  of the values written, and the numbers of the worked inputs (256, 64, 128, 3, 0.375,
  0.75) are binary fractions, on which Python computes exactly the same values.
  Every \<^verbatim>\<open>raise\<close> of the Python code is a value of \<open>py_error\<close>.
\<close>

datatype py_error = ZeroDivisionError | IndexError | NameError | TypeError | UnboundLocalError

text \<open>\<^verbatim>\<open>TradeEngine\<close>: the rolling list of prices and the last buy price (\<^verbatim>\<open>None\<close> at first).\<close>

record trade_engine =
  prices :: "real list"
  last_buy_price :: "real option"

definition TradeEngine_init :: trade_engine where
  "TradeEngine_init = \<lparr>prices = [], last_buy_price = None\<rparr>"

text \<open>
  The tuples appended to \<^verbatim>\<open>trade_history\<close>:
  \<^verbatim>\<open>("BUY", price, holdings, balance)\<close> and
  \<^verbatim>\<open>("SELL", price, proceeds, balance, profit)\<close>. The fifth component exists only in
  SELL tuples.
\<close>

record trade =
  side :: string
  trade_price :: real
  trade_amount :: real
  trade_balance :: real
  trade_profit :: "real option"

text \<open>\<^verbatim>\<open>PaperTradeSimulator\<close>.\<close>

record paper_trade_simulator =
  balance :: real
  holdings :: real
  trade_history :: "trade list"
  wins :: nat
  losses :: nat

definition PaperTradeSimulator_init :: "real \<Rightarrow> paper_trade_simulator" where
  "PaperTradeSimulator_init initial_balance =
     \<lparr>balance = initial_balance, holdings = 0, trade_history = [], wins = 0, losses = 0\<rparr>"

text \<open>
  The strings returned by \<^verbatim>\<open>execute_trade\<close>: \<^verbatim>\<open>"BUY executed at ..."\<close>,
  \<^verbatim>\<open>"SELL executed at ..."\<close> and \<^verbatim>\<open>"No trade executed"\<close>. The price is kept as a
  number; its two-digit formatting is not modelled.
\<close>

datatype message = BuyExecutedAt real | SellExecutedAt real | NoTradeExecuted

section \<open>Double precision arithmetic\<close>

text \<open>The number of binary digits of a natural number.\<close>

fun bit_length :: "nat \<Rightarrow> nat" where
  "bit_length n = (if n = 0 then 0 else Suc (bit_length (n div 2)))"

declare bit_length.simps [simp del]

text \<open>The integer nearest to \<open>x\<close>, the even one of the two on a tie.\<close>

definition round_half_even :: "real \<Rightarrow> int" where
  "round_half_even x =
     (let f = \<lfloor>x\<rfloor>; r = x - of_int f
      in if r < 1 / 2 then f else if r > 1 / 2 then f + 1 else if even f then f else f + 1)"

text \<open>The exponent \<open>e\<close> with \<open>2 ^ e \<le> \<bar>x\<bar> < 2 ^ (e + 1)\<close>, for \<open>x\<close> other than zero.\<close>

definition binade :: "real \<Rightarrow> int" where
  "binade x =
     (if \<bar>x\<bar> \<ge> 1 then int (bit_length (nat \<lfloor>\<bar>x\<bar>\<rfloor>)) - 1
      else - int (bit_length (nat (\<lceil>1 / \<bar>x\<bar>\<rceil> - 1))))"

definition pow2 :: "int \<Rightarrow> real" where
  "pow2 k = (if k \<ge> 0 then 2 ^ nat k else 1 / 2 ^ nat (- k))"

text \<open>
  Rounding to the nearest IEEE 754 binary64 number, ties to even: 53 significant bits,
  and multiples of \<open>2 ^ (- 1074)\<close> below the smallest normal number. A result beyond the
  largest double (Python's \<^verbatim>\<open>inf\<close>) is not modelled.
\<close>

definition double_round :: "real \<Rightarrow> real" where
  "double_round x =
     (if x = 0 then 0
      else let k = max (binade x) (- 1022) - 52
           in of_int (round_half_even (x / pow2 k)) * pow2 k)"

text \<open>
  The float operations \<^verbatim>\<open>+\<close>, \<^verbatim>\<open>*\<close> and \<^verbatim>\<open>/\<close> (the divisors of the code are the constants 8
  and 16), and \<^verbatim>\<open>sum\<close>, which starts from 0 and adds from left to right, rounding each
  partial sum. (From CPython 3.12 on \<^verbatim>\<open>sum\<close> compensates the rounding errors of the partial
  sums; no theorem below depends on how a sum is rounded, and the sums of the worked
  inputs are exact.)
\<close>

definition float_add :: "real \<Rightarrow> real \<Rightarrow> real" where
  "float_add a b = double_round (a + b)"

definition float_mul :: "real \<Rightarrow> real \<Rightarrow> real" where
  "float_mul a b = double_round (a * b)"

definition float_div :: "real \<Rightarrow> real \<Rightarrow> real" where
  "float_div a b = double_round (a / b)"

definition float_sum :: "real list \<Rightarrow> real" where
  "float_sum xs = foldl float_add 0 xs"

section \<open>TradeEngine\<close>

text \<open>
  \<^verbatim>\<open>update_price\<close>: append, then \<^verbatim>\<open>pop(0)\<close> when more than 50 prices are held. The list
  is not empty after the append, so \<^verbatim>\<open>pop(0)\<close> cannot raise.
\<close>

definition update_price :: "trade_engine \<Rightarrow> real \<Rightarrow> trade_engine" where
  "update_price e p =
     (let e1 = e\<lparr>prices := prices e @ [p]\<rparr>
      in if length (prices e1) > 50 then e1\<lparr>prices := tl (prices e1)\<rparr> else e1)"

text \<open>The slice \<^verbatim>\<open>xs[-n:]\<close> for a positive \<open>n\<close>: the last \<open>n\<close> elements, all of them if there are fewer.\<close>

definition last_n :: "nat \<Rightarrow> 'a list \<Rightarrow> 'a list" where
  "last_n n xs = drop (length xs - n) xs"

text \<open>
  \<^verbatim>\<open>generate_signal\<close> returns the signal and the engine after the call. With 16 or more
  prices the reads \<^verbatim>\<open>self.prices[-1]\<close> are in range. The two averages are plain means of
  the last 8 and the last 16 prices, whatever their names say. The literal \<^verbatim>\<open>1.001\<close> is the
  double nearest to it, and the product with it is rounded again.
\<close>

definition generate_signal :: "trade_engine \<Rightarrow> string \<times> trade_engine" where
  "generate_signal e =
     (if length (prices e) < 16 then (''HOLD'', e)
      else
        let short_ema = float_div (float_sum (last_n 8 (prices e))) 8;
            long_ema = float_div (float_sum (last_n 16 (prices e))) 16
        in if short_ema > long_ema \<and>
              (case last_buy_price e of
                 None \<Rightarrow> True
               | Some b \<Rightarrow> last (prices e) > float_mul b (double_round 1.001))
           then (''BUY'', e\<lparr>last_buy_price := Some (last (prices e))\<rparr>)
           else if short_ema < long_ema then (''SELL'', e)
           else (''HOLD'', e))"

section \<open>PaperTradeSimulator\<close>

text \<open>
  \<^verbatim>\<open>execute_trade\<close> returns the message or the exception raised, and the simulator after
  the call. Each exception is raised before the first assignment to a field, so the
  simulator is then the one the call started from:
  \<^item> \<^verbatim>\<open>allocation / price\<close> and \<^verbatim>\<open>(price - buy_price) / buy_price\<close> raise
    \<^verbatim>\<open>ZeroDivisionError\<close> on a zero divisor;
  \<^item> \<^verbatim>\<open>self.trade_history[-1]\<close> raises \<^verbatim>\<open>IndexError\<close> on an empty list;
  \<^item> \<^verbatim>\<open>short_ema\<close> and \<^verbatim>\<open>long_ema\<close> are neither parameters nor locals of
    \<^verbatim>\<open>execute_trade\<close> nor names bound at module level, so the right operand of
    \<^verbatim>\<open>or\<close>, evaluated when \<^verbatim>\<open>profit_percent > 1\<close> is false, raises \<^verbatim>\<open>NameError\<close>.
\<close>

definition execute_trade ::
  "paper_trade_simulator \<Rightarrow> string \<Rightarrow> real \<Rightarrow> (py_error + message) \<times> paper_trade_simulator" where
  "execute_trade s signal price =
     (if signal = ''BUY'' \<and> balance s > 0 then
        let allocation = balance s * 0.75
        in if price = 0 then (Inl ZeroDivisionError, s)
           else
             let s1 = s\<lparr>holdings := allocation / price\<rparr>;
                 s2 = s1\<lparr>balance := balance s1 - allocation\<rparr>;
                 s3 = s2\<lparr>trade_history := trade_history s2 @
                        [\<lparr>side = ''BUY'', trade_price = price, trade_amount = holdings s2,
                          trade_balance = balance s2, trade_profit = None\<rparr>]\<rparr>
             in (Inr (BuyExecutedAt price), s3)
      else if signal = ''SELL'' \<and> holdings s > 0 then
        let proceeds = holdings s * price
        in if trade_history s = [] then (Inl IndexError, s)
           else
             let buy_price = trade_price (last (trade_history s));
                 profit = proceeds - buy_price * holdings s
             in if buy_price = 0 then (Inl ZeroDivisionError, s)
                else
                  let profit_percent = (price - buy_price) / buy_price * 100
                  in if profit_percent > 1 then
                       let s1 = s\<lparr>balance := balance s + proceeds\<rparr>;
                           s2 = s1\<lparr>holdings := 0\<rparr>;
                           s3 = s2\<lparr>trade_history := trade_history s2 @
                                  [\<lparr>side = ''SELL'', trade_price = price, trade_amount = proceeds,
                                    trade_balance = balance s2, trade_profit = Some profit\<rparr>]\<rparr>;
                           s4 = (if profit > 0 then s3\<lparr>wins := wins s3 + 1\<rparr>
                                 else s3\<lparr>losses := losses s3 + 1\<rparr>)
                       in (Inr (SellExecutedAt price), s4)
                     else (Inl NameError, s)
      else (Inr NoTradeExecuted, s))"

section \<open>Sequences of calls\<close>

text \<open>The engine after a sequence of \<^verbatim>\<open>update_price\<close> calls, oldest first.\<close>

definition observe_all :: "trade_engine \<Rightarrow> real list \<Rightarrow> trade_engine" where
  "observe_all e ps = foldl update_price e ps"

text \<open>
  A sequence of calls on one engine, in any order: \<^verbatim>\<open>update_price(p)\<close> or
  \<^verbatim>\<open>generate_signal()\<close>. \<open>engine_run\<close> returns the signals of the
  \<^verbatim>\<open>generate_signal\<close> calls in order, and the engine at the end.
\<close>

datatype engine_call = Observe real | Evaluate

fun engine_run :: "trade_engine \<Rightarrow> engine_call list \<Rightarrow> string list \<times> trade_engine" where
  "engine_run e [] = ([], e)"
| "engine_run e (Observe p # cs) = engine_run (update_price e p) cs"
| "engine_run e (Evaluate # cs) =
     (let r = generate_signal e; rest = engine_run (snd r) cs
      in (fst r # fst rest, snd rest))"

fun observed :: "engine_call list \<Rightarrow> real list" where
  "observed [] = []"
| "observed (Observe p # cs) = p # observed cs"
| "observed (Evaluate # cs) = observed cs"

text \<open>
  A sequence of \<^verbatim>\<open>execute_trade(signal, price)\<close> calls on one simulator. A call that
  raises leaves the simulator as it was, and the next call starts from there.
\<close>

fun run_trades :: "paper_trade_simulator \<Rightarrow> (string \<times> real) list \<Rightarrow> paper_trade_simulator" where
  "run_trades s [] = s"
| "run_trades s (c # cs) = run_trades (snd (execute_trade s (fst c) (snd c))) cs"

definition sell_count :: "paper_trade_simulator \<Rightarrow> nat" where
  "sell_count s = length (filter (\<lambda>t. side t = ''SELL'') (trade_history s))"

definition buy_count :: "paper_trade_simulator \<Rightarrow> nat" where
  "buy_count s = length (filter (\<lambda>t. side t = ''BUY'') (trade_history s))"

section \<open>The price feed and the dashboard loop\<close>

text \<open>
  What one \<^verbatim>\<open>requests.get\<close> can bring: an exception of the request itself, a response
  whose body is not JSON of the expected shape (\<^verbatim>\<open>response.json()\<close>, the subscripts or
  \<^verbatim>\<open>float\<close> raise), or an amount. \<^verbatim>\<open>get_price\<close> catches every exception and returns
  \<^verbatim>\<open>None\<close>.
\<close>

datatype response = RequestFailed | Malformed | Amount real

definition get_price :: "response \<Rightarrow> real option" where
  "get_price r = (case r of Amount a \<Rightarrow> Some a | _ \<Rightarrow> None)"

text \<open>
  The objects \<^verbatim>\<open>trade_dashboard\<close> works on, and its local \<^verbatim>\<open>trade_message\<close>, which is
  unbound until the first assignment.
\<close>

record dashboard =
  strategy :: trade_engine
  simulator :: paper_trade_simulator
  trade_message :: "message option"

definition dashboard_init :: dashboard where
  "dashboard_init =
     \<lparr>strategy = TradeEngine_init, simulator = PaperTradeSimulator_init 230,
      trade_message = None\<rparr>"

text \<open>
  The guarded block \<^verbatim>\<open>if price: ...\<close>. \<^verbatim>\<open>None\<close> and \<^verbatim>\<open>0.0\<close> are falsy. An exception
  of \<^verbatim>\<open>execute_trade\<close> is not caught.
\<close>

definition trade_step :: "dashboard \<Rightarrow> real option \<Rightarrow> py_error + dashboard" where
  "trade_step d fetched =
     (case fetched of
        None \<Rightarrow> Inr d
      | Some p \<Rightarrow>
          if p = 0 then Inr d
          else
            let e1 = update_price (strategy d) p;
                g = generate_signal e1;
                x = execute_trade (simulator d) (fst g) p
            in (case fst x of
                  Inl err \<Rightarrow> Inl err
                | Inr m \<Rightarrow>
                    Inr \<lparr>strategy = snd g, simulator = snd x, trade_message = Some m\<rparr>))"

text \<open>
  The drawing code, as far as it can raise on the values it formats:
  \<^verbatim>\<open>f"... ${price:.2f}"\<close> raises \<^verbatim>\<open>TypeError\<close> when \<^verbatim>\<open>price\<close> is \<^verbatim>\<open>None\<close>, and
  \<^verbatim>\<open>f"... {trade_message}"\<close> raises \<^verbatim>\<open>UnboundLocalError\<close> while \<^verbatim>\<open>trade_message\<close> has
  never been assigned. The terminal calls themselves are taken to succeed.
\<close>

definition draw_ui :: "dashboard \<Rightarrow> real option \<Rightarrow> py_error + unit" where
  "draw_ui d fetched =
     (case fetched of
        None \<Rightarrow> Inl TypeError
      | Some p \<Rightarrow>
          (case trade_message d of
             None \<Rightarrow> Inl UnboundLocalError
           | Some m \<Rightarrow> Inr ()))"

text \<open>One pass through the body of \<^verbatim>\<open>while True\<close>, up to \<^verbatim>\<open>stdscr.refresh()\<close>.\<close>

definition loop_body :: "dashboard \<Rightarrow> response \<Rightarrow> py_error + dashboard" where
  "loop_body d r =
     (let fetched = get_price r
      in case trade_step d fetched of
           Inl err \<Rightarrow> Inl err
         | Inr d1 \<Rightarrow>
             (case draw_ui d1 fetched of
                Inl err \<Rightarrow> Inl err
              | Inr u \<Rightarrow> Inr d1))"

text \<open>
  The loop, run on the environment's inputs tick by tick: what the request brings and
  whether \<^verbatim>\<open>q\<close> was pressed. An exception leaves the loop and the function; \<^verbatim>\<open>q\<close> leaves
  the loop by \<^verbatim>\<open>break\<close>. The result is the exception, or the objects when the loop was
  left by \<^verbatim>\<open>q\<close> or the inputs given are used up.
\<close>

fun trade_dashboard :: "dashboard \<Rightarrow> (response \<times> bool) list \<Rightarrow> py_error + dashboard" where
  "trade_dashboard d [] = Inr d"
| "trade_dashboard d (t # ts) =
     (case loop_body d (fst t) of
        Inl err \<Rightarrow> Inl err
      | Inr d1 \<Rightarrow> if snd t then Inr d1 else trade_dashboard d1 ts)"

section \<open>The rolling window\<close>

lemma update_price_prices:
  "prices (update_price e p) =
     (if length (prices e) \<ge> 50 then tl (prices e @ [p]) else prices e @ [p])"
  by (simp add: update_price_def Let_def)

lemma update_price_last_buy_price: "last_buy_price (update_price e p) = last_buy_price e"
  by (simp add: update_price_def Let_def)

lemma update_price_length_le:
  "length (prices e) \<le> 50 \<Longrightarrow> length (prices (update_price e p)) \<le> 50"
  by (simp add: update_price_prices)

lemma update_price_full:
  "length (prices e) = 50 \<Longrightarrow> prices (update_price e p) = tl (prices e) @ [p]"
  by (cases "prices e") (simp_all add: update_price_prices)

lemma observe_all_snoc: "observe_all e (ps @ [p]) = update_price (observe_all e ps) p"
  by (simp add: observe_all_def)

lemma tl_drop_snoc:
  "k < length xs \<Longrightarrow> tl (drop k xs @ [x]) = drop (Suc k) (xs @ [x])"
proof -
  assume k: "k < length xs"
  then have "drop k xs \<noteq> []" by simp
  then have "tl (drop k xs @ [x]) = tl (drop k xs) @ [x]" by (rule tl_append2)
  also have "tl (drop k xs) = drop (Suc k) xs" by (simp add: drop_Suc tl_drop)
  finally show ?thesis using k by simp
qed

lemma observe_all_prices:
  "prices (observe_all TradeEngine_init ps) = drop (length ps - 50) ps"
proof (induction ps rule: rev_induct)
  case Nil
  show ?case by (simp add: observe_all_def TradeEngine_init_def)
next
  case (snoc p ps)
  show ?case
  proof (cases "length ps \<ge> 50")
    case True
    then have k: "length ps - 50 < length ps" by simp
    have "prices (observe_all TradeEngine_init (ps @ [p])) = tl (drop (length ps - 50) ps @ [p])"
      using True by (simp add: observe_all_snoc update_price_prices snoc.IH)
    also have "\<dots> = drop (Suc (length ps - 50)) (ps @ [p])"
      using k by (rule tl_drop_snoc)
    also have "Suc (length ps - 50) = length (ps @ [p]) - 50"
      using True by simp
    finally show ?thesis .
  next
    case False
    then show ?thesis
      by (simp add: observe_all_snoc update_price_prices snoc.IH)
  qed
qed

lemma generate_signal_prices: "prices (snd (generate_signal e)) = prices e"
  by (simp add: generate_signal_def Let_def)

lemma update_price_last_n:
  assumes "length (prices e) \<le> 50"
  shows "prices (update_price e p) = last_n 50 (prices e @ [p])"
proof (cases "length (prices e) = 50")
  case True
  then have "last_n 50 (prices e @ [p]) = drop 1 (prices e @ [p])"
    by (simp add: last_n_def)
  also have "\<dots> = tl (prices e @ [p])"
    by (simp only: One_nat_def drop_Suc drop_0)
  finally show ?thesis using True by (simp add: update_price_prices)
next
  case False
  with assms have "length (prices e) < 50" by simp
  then show ?thesis by (simp add: update_price_prices last_n_def)
qed

lemma last_n_length: "length (last_n n xs) \<le> n"
  by (simp add: last_n_def)

lemma last_n_last_n_append: "last_n n (last_n n xs @ ys) = last_n n (xs @ ys)"
proof (cases "length xs \<le> n")
  case True
  then show ?thesis by (simp add: last_n_def)
next
  case False
  then have l: "n < length xs" by simp
  then have "length (drop (length xs - n) xs) = n" by simp
  with l show ?thesis by (simp add: last_n_def add.commute)
qed

lemma observe_all_last_n:
  "length (prices e) \<le> 50 \<Longrightarrow> prices (observe_all e ps) = last_n 50 (prices e @ ps)"
proof (induction ps arbitrary: e)
  case Nil
  then show ?case by (simp add: observe_all_def last_n_def)
next
  case (Cons p ps)
  have s: "observe_all e (p # ps) = observe_all (update_price e p) ps"
    by (simp add: observe_all_def)
  have w: "prices (update_price e p) = last_n 50 (prices e @ [p])"
    using Cons.prems by (rule update_price_last_n)
  then have "length (prices (update_price e p)) \<le> 50"
    by (simp add: last_n_length)
  then have "prices (observe_all (update_price e p) ps)
      = last_n 50 (prices (update_price e p) @ ps)"
    by (rule Cons.IH)
  also have "\<dots> = last_n 50 ((prices e @ [p]) @ ps)"
    unfolding w by (rule last_n_last_n_append)
  finally show ?case using s by simp
qed

lemma engine_run_last_n:
  "length (prices e) \<le> 50 \<Longrightarrow>
     prices (snd (engine_run e cs)) = last_n 50 (prices e @ observed cs)"
proof (induction cs arbitrary: e)
  case Nil
  then show ?case by (simp add: last_n_def)
next
  case (Cons c cs)
  show ?case
  proof (cases c)
    case (Observe p)
    have w: "prices (update_price e p) = last_n 50 (prices e @ [p])"
      using Cons.prems by (rule update_price_last_n)
    then have "length (prices (update_price e p)) \<le> 50"
      by (simp add: last_n_length)
    then have "prices (snd (engine_run (update_price e p) cs))
        = last_n 50 (prices (update_price e p) @ observed cs)"
      by (rule Cons.IH)
    also have "\<dots> = last_n 50 ((prices e @ [p]) @ observed cs)"
      unfolding w by (rule last_n_last_n_append)
    finally show ?thesis using Observe by simp
  next
    case Evaluate
    have "length (prices (snd (generate_signal e))) \<le> 50"
      using Cons.prems by (simp add: generate_signal_prices)
    then have "prices (snd (engine_run (snd (generate_signal e)) cs))
        = last_n 50 (prices (snd (generate_signal e)) @ observed cs)"
      by (rule Cons.IH)
    then show ?thesis using Evaluate by (simp add: Let_def generate_signal_prices)
  qed
qed

text \<open>
  Claim C6. On every engine, whatever its last buy price, \<^verbatim>\<open>update_price\<close> appends the
  price and, once 50 prices are held already, drops the oldest one; it leaves the last buy
  price alone. So a window of at most 50 prices stays one: after every sequence of
  \<^verbatim>\<open>update_price\<close> and \<^verbatim>\<open>generate_signal\<close> calls it holds, in order, the last 50 of the
  prices it held followed by the prices observed. From the initial engine that is the last
  50 observations; after 51 distinct observations the first is gone and the second is at
  the head.
\<close>

theorem price_window_bounded_fifo:
  "prices (update_price e p)
     = (if length (prices e) < 50 then prices e @ [p] else tl (prices e @ [p]))
   \<and> last_buy_price (update_price e p) = last_buy_price e
   \<and> (length (prices e) \<le> 50 \<longrightarrow> length (prices (update_price e p)) \<le> 50)
   \<and> (length (prices e) = 50 \<longrightarrow> prices (update_price e p) = tl (prices e) @ [p])
   \<and> (length (prices e) \<le> 50 \<longrightarrow>
        length (prices (snd (engine_run e cs))) \<le> 50
        \<and> prices (snd (engine_run e cs)) = last_n 50 (prices e @ observed cs)
        \<and> prices (observe_all e ps) = last_n 50 (prices e @ ps))
   \<and> length (prices (observe_all TradeEngine_init ps)) \<le> 50
   \<and> prices (observe_all TradeEngine_init ps) = last_n 50 ps
   \<and> (length ps = 51 \<and> distinct ps \<longrightarrow>
        ps ! 0 \<notin> set (prices (observe_all TradeEngine_init ps))
        \<and> hd (prices (observe_all TradeEngine_init ps)) = ps ! 1)"
proof -
  have u: "prices (update_price e p)
     = (if length (prices e) < 50 then prices e @ [p] else tl (prices e @ [p]))"
    by (simp add: update_price_prices)
  have f: "last_buy_price (update_price e p) = last_buy_price e"
    by (rule update_price_last_buy_price)
  have r: "length (prices e) \<le> 50 \<longrightarrow>
        length (prices (snd (engine_run e cs))) \<le> 50
        \<and> prices (snd (engine_run e cs)) = last_n 50 (prices e @ observed cs)
        \<and> prices (observe_all e ps) = last_n 50 (prices e @ ps)"
    by (simp add: engine_run_last_n observe_all_last_n last_n_length)
  have w: "prices (observe_all TradeEngine_init ps) = drop (length ps - 50) ps"
    by (rule observe_all_prices)
  have a: "length (prices (observe_all TradeEngine_init ps)) \<le> 50"
    unfolding w by simp
  have b: "prices (observe_all TradeEngine_init ps) = last_n 50 ps"
    unfolding w by (simp add: last_n_def)
  have c: "length ps = 51 \<and> distinct ps \<longrightarrow>
        ps ! 0 \<notin> set (prices (observe_all TradeEngine_init ps))
        \<and> hd (prices (observe_all TradeEngine_init ps)) = ps ! 1"
  proof
    assume h: "length ps = 51 \<and> distinct ps"
    then obtain x xs where ps: "ps = x # xs" by (cases ps) auto
    with h have xs: "length xs = 50" "x \<notin> set xs" by auto
    then have "xs \<noteq> []" by auto
    then have hd: "hd xs = xs ! 0" by (simp add: hd_conv_nth)
    from w h have "prices (observe_all TradeEngine_init ps) = drop 1 ps" by simp
    then have "prices (observe_all TradeEngine_init ps) = xs" by (simp add: ps)
    with xs hd show "ps ! 0 \<notin> set (prices (observe_all TradeEngine_init ps))
        \<and> hd (prices (observe_all TradeEngine_init ps)) = ps ! 1"
      by (simp add: ps)
  qed
  from u f r a b c show ?thesis
    using update_price_length_le [of e p] update_price_full [of e p] by blast
qed

theorem price_window_bounded_fifo_witness:
  "length (map real [0..<51]) = 51 \<and> distinct (map real [0..<51])
   \<and> 0 \<notin> set (prices (observe_all TradeEngine_init (map real [0..<51])))
   \<and> hd (prices (observe_all TradeEngine_init (map real [0..<51]))) = 1
   \<and> length (prices \<lparr>prices = map real [0..<50], last_buy_price = Some 49\<rparr>) = 50
   \<and> prices (update_price \<lparr>prices = map real [0..<50], last_buy_price = Some 49\<rparr> 50)
        = tl (map real [0..<50]) @ [50]
   \<and> last_buy_price (update_price \<lparr>prices = map real [0..<50], last_buy_price = Some 49\<rparr> 50)
        = Some 49
   \<and> prices (snd (engine_run \<lparr>prices = map real [0..<50], last_buy_price = Some 49\<rparr>
         [Observe 50, Evaluate, Observe 51]))
        = last_n 50 (map real [0..<50] @ [50, 51])
   \<and> length (prices \<lparr>prices = [1, 2], last_buy_price = Some 2\<rparr>) < 50
   \<and> prices (update_price \<lparr>prices = [1, 2], last_buy_price = Some 2\<rparr> 3) = [1, 2, 3]"
proof -
  have l: "length (map real [0..<51]) = 51" by simp
  have d: "distinct (map real [0..<51])" by (simp add: distinct_map)
  have e: "length (prices \<lparr>prices = map real [0..<50], last_buy_price = Some 49\<rparr>) = 50" by simp
  have s: "length (prices \<lparr>prices = [1, 2], last_buy_price = Some 2\<rparr>) < 50" by simp
  have n: "map real [0..<51] ! 0 = 0" "map real [0..<51] ! 1 = 1" by simp_all
  note t = price_window_bounded_fifo [of "\<lparr>prices = map real [0..<50], last_buy_price = Some 49\<rparr>"
      50 "[Observe 50, Evaluate, Observe 51]" "[]" ]
  note t1 = price_window_bounded_fifo [of "\<lparr>prices = [1, 2], last_buy_price = Some 2\<rparr>"
      3 "[]" "map real [0..<51]"]
  from t1 l d have x: "map real [0..<51] ! 0 \<notin> set (prices (observe_all TradeEngine_init (map real [0..<51])))
     \<and> hd (prices (observe_all TradeEngine_init (map real [0..<51]))) = map real [0..<51] ! 1"
    by blast
  from t e have y: "prices (update_price \<lparr>prices = map real [0..<50], last_buy_price = Some 49\<rparr> 50)
        = tl (prices \<lparr>prices = map real [0..<50], last_buy_price = Some 49\<rparr>) @ [50]"
    by blast
  from t have b: "last_buy_price (update_price \<lparr>prices = map real [0..<50], last_buy_price = Some 49\<rparr> 50)
        = last_buy_price \<lparr>prices = map real [0..<50], last_buy_price = Some 49\<rparr>"
    by blast
  from t e have r: "prices (snd (engine_run \<lparr>prices = map real [0..<50], last_buy_price = Some 49\<rparr>
         [Observe 50, Evaluate, Observe 51]))
        = last_n 50 (prices \<lparr>prices = map real [0..<50], last_buy_price = Some 49\<rparr>
            @ observed [Observe 50, Evaluate, Observe 51])"
    by simp
  from t1 s have z: "prices (update_price \<lparr>prices = [1, 2], last_buy_price = Some 2\<rparr> 3)
        = prices \<lparr>prices = [1, 2], last_buy_price = Some 2\<rparr> @ [3]"
    by simp
  from x n have x': "0 \<notin> set (prices (observe_all TradeEngine_init (map real [0..<51])))
     \<and> hd (prices (observe_all TradeEngine_init (map real [0..<51]))) = 1"
    by simp
  from y have y': "prices (update_price \<lparr>prices = map real [0..<50], last_buy_price = Some 49\<rparr> 50)
        = tl (map real [0..<50]) @ [50]"
    by (simp only: trade_engine.simps)
  from b have b': "last_buy_price (update_price \<lparr>prices = map real [0..<50], last_buy_price = Some 49\<rparr> 50)
        = Some 49"
    by (simp only: trade_engine.simps)
  from r have r': "prices (snd (engine_run \<lparr>prices = map real [0..<50], last_buy_price = Some 49\<rparr>
         [Observe 50, Evaluate, Observe 51]))
        = last_n 50 (map real [0..<50] @ [50, 51])"
    by (simp only: trade_engine.simps observed.simps)
  from z have z': "prices (update_price \<lparr>prices = [1, 2], last_buy_price = Some 2\<rparr> 3) = [1, 2, 3]"
    by simp
  from l d e s x' y' b' r' z' show ?thesis by blast
qed

section \<open>What one call of execute_trade does\<close>

lemma execute_trade_buy:
  assumes "balance s > 0" "p \<noteq> 0"
  shows "execute_trade s ''BUY'' p =
    (Inr (BuyExecutedAt p),
     s\<lparr>holdings := balance s * 0.75 / p,
       balance := balance s - balance s * 0.75,
       trade_history := trade_history s @
         [\<lparr>side = ''BUY'', trade_price = p, trade_amount = balance s * 0.75 / p,
           trade_balance = balance s - balance s * 0.75, trade_profit = None\<rparr>]\<rparr>)"
  using assms by (simp add: execute_trade_def Let_def)

lemma execute_trade_sell:
  assumes "holdings s > 0" "trade_history s \<noteq> []"
    "trade_price (last (trade_history s)) = bp" "bp \<noteq> 0" "(p - bp) / bp * 100 > 1"
  shows "execute_trade s ''SELL'' p =
    (Inr (SellExecutedAt p),
     (if holdings s * p - bp * holdings s > 0
      then s\<lparr>balance := balance s + holdings s * p, holdings := 0,
        trade_history := trade_history s @
         [\<lparr>side = ''SELL'', trade_price = p, trade_amount = holdings s * p,
           trade_balance = balance s + holdings s * p,
           trade_profit = Some (holdings s * p - bp * holdings s)\<rparr>],
        wins := wins s + 1\<rparr>
      else s\<lparr>balance := balance s + holdings s * p, holdings := 0,
        trade_history := trade_history s @
         [\<lparr>side = ''SELL'', trade_price = p, trade_amount = holdings s * p,
           trade_balance = balance s + holdings s * p,
           trade_profit = Some (holdings s * p - bp * holdings s)\<rparr>],
        losses := losses s + 1\<rparr>))"
  using assms by (simp add: execute_trade_def Let_def)

lemma execute_trade_gate_fail:
  assumes "holdings s > 0" "trade_history s \<noteq> []"
    "trade_price (last (trade_history s)) = bp" "bp \<noteq> 0" "(p - bp) / bp * 100 \<le> 1"
  shows "execute_trade s ''SELL'' p = (Inl NameError, s)"
  using assms by (simp add: execute_trade_def Let_def)

lemma execute_trade_other:
  assumes "\<not> (signal = ''BUY'' \<and> balance s > 0)" "\<not> (signal = ''SELL'' \<and> holdings s > 0)"
  shows "execute_trade s signal p = (Inr NoTradeExecuted, s)"
proof -
  from assms(1) have b: "(signal = ''BUY'' \<and> balance s > 0) = False" by simp
  from assms(2) have c: "(signal = ''SELL'' \<and> holdings s > 0) = False" by simp
  show ?thesis unfolding execute_trade_def b c by simp
qed

lemma run_256_64:
  "run_trades (PaperTradeSimulator_init 256) [(''BUY'', 64)] =
     \<lparr>balance = 64, holdings = 3,
      trade_history = [\<lparr>side = ''BUY'', trade_price = 64, trade_amount = 3,
           trade_balance = 64, trade_profit = None\<rparr>], wins = 0, losses = 0\<rparr>"
  by (simp add: PaperTradeSimulator_init_def execute_trade_def Let_def)

text \<open>
  The two-call scenario on the default balance: a BUY at 100 allocates 172.5 and leaves a
  balance of 57.5 and holdings of 1.725; a SELL at 102 (two per cent above the buy price)
  brings 175.95, a profit of 3.45 and one win.
\<close>

lemma buy_then_sell_scenario:
  "run_trades (PaperTradeSimulator_init 230) [(''BUY'', 100), (''SELL'', 102)] =
     \<lparr>balance = 233.45, holdings = 0,
      trade_history =
        [\<lparr>side = ''BUY'', trade_price = 100, trade_amount = 1.725,
           trade_balance = 57.5, trade_profit = None\<rparr>,
         \<lparr>side = ''SELL'', trade_price = 102, trade_amount = 175.95,
           trade_balance = 233.45, trade_profit = Some 3.45\<rparr>],
      wins = 1, losses = 0\<rparr>"
  by (simp add: PaperTradeSimulator_init_def execute_trade_def Let_def)

text \<open>
  Claim C7. A SELL signal with no holdings, a BUY signal with a zero balance, and a HOLD
  signal each leave every field of the simulator as it was and return the message
  "No trade executed"; no exception is raised.
\<close>

theorem invalid_trade_state_noop:
  "(signal = ''SELL'' \<and> holdings s = 0) \<or> (signal = ''BUY'' \<and> balance s = 0) \<or> signal = ''HOLD''
   \<Longrightarrow> execute_trade s signal p = (Inr NoTradeExecuted, s)"
  by (rule execute_trade_other) auto

theorem invalid_trade_state_noop_witness:
  "execute_trade (PaperTradeSimulator_init 230) ''SELL'' 100
     = (Inr NoTradeExecuted, PaperTradeSimulator_init 230)
   \<and> execute_trade (PaperTradeSimulator_init 0) ''BUY'' 100
     = (Inr NoTradeExecuted, PaperTradeSimulator_init 0)
   \<and> execute_trade (PaperTradeSimulator_init 230) ''HOLD'' 100
     = (Inr NoTradeExecuted, PaperTradeSimulator_init 230)"
  using invalid_trade_state_noop [of "''SELL''" "PaperTradeSimulator_init 230" 100]
    invalid_trade_state_noop [of "''BUY''" "PaperTradeSimulator_init 0" 100]
    invalid_trade_state_noop [of "''HOLD''" "PaperTradeSimulator_init 230" 100]
  by (simp add: PaperTradeSimulator_init_def)

text \<open>
  Claim C4. With positive holdings, a last ledger record whose price \<open>bp\<close> is not zero and a
  profit percentage above 1, a SELL adds \<open>holdings * p\<close> to the balance, sets the holdings
  to zero, appends a SELL record carrying the profit, and increments exactly one counter:
  \<open>wins\<close> when the profit is positive, \<open>losses\<close> otherwise.
\<close>

theorem sell_gate_pass_realises:
  assumes "holdings s > 0" and "trade_history s \<noteq> []"
    and "trade_price (last (trade_history s)) = bp" and "bp \<noteq> 0"
    and "(p - bp) / bp * 100 > 1"
  shows "fst (execute_trade s ''SELL'' p) = Inr (SellExecutedAt p)
    \<and> balance (snd (execute_trade s ''SELL'' p)) = balance s + holdings s * p
    \<and> holdings (snd (execute_trade s ''SELL'' p)) = 0
    \<and> trade_history (snd (execute_trade s ''SELL'' p)) = trade_history s @
         [\<lparr>side = ''SELL'', trade_price = p, trade_amount = holdings s * p,
           trade_balance = balance s + holdings s * p,
           trade_profit = Some (holdings s * p - bp * holdings s)\<rparr>]
    \<and> (holdings s * p - bp * holdings s > 0 \<longrightarrow>
          wins (snd (execute_trade s ''SELL'' p)) = wins s + 1
          \<and> losses (snd (execute_trade s ''SELL'' p)) = losses s)
    \<and> (\<not> holdings s * p - bp * holdings s > 0 \<longrightarrow>
          losses (snd (execute_trade s ''SELL'' p)) = losses s + 1
          \<and> wins (snd (execute_trade s ''SELL'' p)) = wins s)"
  by (simp add: execute_trade_sell [OF assms])


theorem sell_gate_pass_realises_witness:
  "execute_trade
     \<lparr>balance = 64, holdings = 3,
      trade_history = [\<lparr>side = ''BUY'', trade_price = 64, trade_amount = 3,
           trade_balance = 64, trade_profit = None\<rparr>], wins = 0, losses = 0\<rparr> ''SELL'' 128
   = (Inr (SellExecutedAt 128),
     \<lparr>balance = 448, holdings = 0,
      trade_history = [\<lparr>side = ''BUY'', trade_price = 64, trade_amount = 3,
           trade_balance = 64, trade_profit = None\<rparr>,
         \<lparr>side = ''SELL'', trade_price = 128, trade_amount = 384,
           trade_balance = 448, trade_profit = Some 192\<rparr>], wins = 1, losses = 0\<rparr>)
   \<and> execute_trade
     \<lparr>balance = 64, holdings = 3,
      trade_history = [\<lparr>side = ''BUY'', trade_price = - 64, trade_amount = 3,
           trade_balance = 64, trade_profit = None\<rparr>], wins = 0, losses = 0\<rparr> ''SELL'' (- 128)
   = (Inr (SellExecutedAt (- 128)),
     \<lparr>balance = - 320, holdings = 0,
      trade_history = [\<lparr>side = ''BUY'', trade_price = - 64, trade_amount = 3,
           trade_balance = 64, trade_profit = None\<rparr>,
         \<lparr>side = ''SELL'', trade_price = - 128, trade_amount = - 384,
           trade_balance = - 320, trade_profit = Some (- 192)\<rparr>], wins = 0, losses = 1\<rparr>)"
  using
    sell_gate_pass_realises [of "\<lparr>balance = 64, holdings = 3,
      trade_history = [\<lparr>side = ''BUY'', trade_price = 64, trade_amount = 3,
           trade_balance = 64, trade_profit = None\<rparr>], wins = 0, losses = 0\<rparr>" 64 128]
    sell_gate_pass_realises [of "\<lparr>balance = 64, holdings = 3,
      trade_history = [\<lparr>side = ''BUY'', trade_price = - 64, trade_amount = 3,
           trade_balance = 64, trade_profit = None\<rparr>], wins = 0, losses = 0\<rparr>" "- 64" "- 128"]
  by (simp add: prod_eq_iff paper_trade_simulator.equality)

text \<open>
  Claim C1 says that a SELL with positive holdings, a profit percentage of at most 1 and no
  sharp drop of the short average changes nothing and returns "No trade executed". In the
  code every SELL with positive holdings and a profit percentage of at most 1 leaves the
  simulator unchanged but raises \<^verbatim>\<open>NameError\<close>, whatever the averages of the tick are: the
  comparison of \<^verbatim>\<open>short_ema\<close> with \<^verbatim>\<open>long_ema\<close> reads two names that are bound nowhere.
\<close>

theorem sell_gate_fail_raises:
  assumes "holdings s > 0" and "trade_history s \<noteq> []"
    and "trade_price (last (trade_history s)) = bp" and "bp \<noteq> 0"
    and "(p - bp) / bp * 100 \<le> 1"
  shows "execute_trade s ''SELL'' p = (Inl NameError, s)"
  using assms by (rule execute_trade_gate_fail)

theorem sell_gate_fail_raises_witness:
  "run_trades (PaperTradeSimulator_init 256) [(''BUY'', 64)] =
     \<lparr>balance = 64, holdings = 3,
      trade_history = [\<lparr>side = ''BUY'', trade_price = 64, trade_amount = 3,
           trade_balance = 64, trade_profit = None\<rparr>], wins = 0, losses = 0\<rparr>
   \<and> execute_trade
     \<lparr>balance = 64, holdings = 3,
      trade_history = [\<lparr>side = ''BUY'', trade_price = 64, trade_amount = 3,
           trade_balance = 64, trade_profit = None\<rparr>], wins = 0, losses = 0\<rparr> ''SELL'' 64
   = (Inl NameError,
     \<lparr>balance = 64, holdings = 3,
      trade_history = [\<lparr>side = ''BUY'', trade_price = 64, trade_amount = 3,
           trade_balance = 64, trade_profit = None\<rparr>], wins = 0, losses = 0\<rparr>)"
proof -
  note r = run_256_64
  show ?thesis
    using r sell_gate_fail_raises [of "\<lparr>balance = 64, holdings = 3,
      trade_history = [\<lparr>side = ''BUY'', trade_price = 64, trade_amount = 3,
           trade_balance = 64, trade_profit = None\<rparr>], wins = 0, losses = 0\<rparr>" 64 64]
    by simp
qed

text \<open>
  Claim C2 says that a BUY adds \<open>allocation / p\<close> to the holdings. The code assigns
  \<open>allocation / p\<close> to the holdings, so what was held before is lost: from a balance of 256,
  a BUY at 64 leaves a balance of 64 and holdings of 3, and a second BUY at 128 leaves
  holdings of 0.375, not 3.375.
\<close>

theorem buy_overwrites_holdings:
  "holdings (run_trades (PaperTradeSimulator_init 256) [(''BUY'', 64)]) = 3
   \<and> balance (run_trades (PaperTradeSimulator_init 256) [(''BUY'', 64)]) = 64
   \<and> holdings (run_trades (PaperTradeSimulator_init 256) [(''BUY'', 64), (''BUY'', 128)]) = 0.375
   \<and> holdings (run_trades (PaperTradeSimulator_init 256) [(''BUY'', 64), (''BUY'', 128)])
       \<noteq> 3 + 64 * 0.75 / 128"
  by (simp add: PaperTradeSimulator_init_def execute_trade_def Let_def)

section \<open>The ledger over sequences of calls\<close>

lemma execute_trade_keeps_last_buy:
  assumes "holdings s > 0 \<longrightarrow> trade_history s \<noteq> [] \<and> side (last (trade_history s)) = ''BUY''"
  shows "holdings (snd (execute_trade s signal p)) > 0 \<longrightarrow>
     trade_history (snd (execute_trade s signal p)) \<noteq> []
     \<and> side (last (trade_history (snd (execute_trade s signal p)))) = ''BUY''"
  using assms by (simp add: execute_trade_def Let_def)

lemma run_trades_keeps_last_buy:
  assumes "holdings s > 0 \<longrightarrow> trade_history s \<noteq> [] \<and> side (last (trade_history s)) = ''BUY''"
  shows "holdings (run_trades s cs) > 0 \<longrightarrow>
     trade_history (run_trades s cs) \<noteq> []
     \<and> side (last (trade_history (run_trades s cs))) = ''BUY''"
  using assms
proof (induction cs arbitrary: s)
  case Nil
  then show ?case by simp
next
  case (Cons c cs)
  from Cons.prems
  have "holdings (snd (execute_trade s (fst c) (snd c))) > 0 \<longrightarrow>
     trade_history (snd (execute_trade s (fst c) (snd c))) \<noteq> []
     \<and> side (last (trade_history (snd (execute_trade s (fst c) (snd c))))) = ''BUY''"
    by (rule execute_trade_keeps_last_buy)
  then show ?case using Cons.IH by simp
qed

lemma execute_trade_index_error:
  "fst (execute_trade s signal p) = Inl IndexError \<Longrightarrow> trade_history s = []"
  by (simp add: execute_trade_def Let_def split: if_splits)

lemma execute_trade_counts:
  assumes "wins s + losses s = sell_count s" "buy_count s + sell_count s = length (trade_history s)"
  shows "wins (snd (execute_trade s signal p)) + losses (snd (execute_trade s signal p))
       = sell_count (snd (execute_trade s signal p))
     \<and> buy_count (snd (execute_trade s signal p)) + sell_count (snd (execute_trade s signal p))
       = length (trade_history (snd (execute_trade s signal p)))"
  using assms by (auto simp: execute_trade_def Let_def sell_count_def buy_count_def)

lemma run_trades_counts:
  assumes "wins s + losses s = sell_count s" "buy_count s + sell_count s = length (trade_history s)"
  shows "wins (run_trades s cs) + losses (run_trades s cs) = sell_count (run_trades s cs)
     \<and> buy_count (run_trades s cs) + sell_count (run_trades s cs)
       = length (trade_history (run_trades s cs))"
  using assms
proof (induction cs arbitrary: s)
  case Nil
  then show ?case by simp
next
  case (Cons c cs)
  from execute_trade_counts [OF Cons.prems, of "fst c" "snd c"] Cons.IH
  show ?case by simp
qed

text \<open>
  Claim C8. In every simulator reached from an initial one by calls of
  \<^verbatim>\<open>execute_trade\<close>, positive holdings mean that the ledger is not empty and that its last
  record is a BUY record; so a SELL that finds positive holdings reads the last record
  without an \<^verbatim>\<open>IndexError\<close>.
\<close>

theorem sell_branch_last_record_is_buy:
  assumes "holdings (run_trades (PaperTradeSimulator_init b) cs) > 0"
  shows "trade_history (run_trades (PaperTradeSimulator_init b) cs) \<noteq> []
    \<and> side (last (trade_history (run_trades (PaperTradeSimulator_init b) cs))) = ''BUY''
    \<and> fst (execute_trade (run_trades (PaperTradeSimulator_init b) cs) ''SELL'' p) \<noteq> Inl IndexError"
proof -
  have "holdings (PaperTradeSimulator_init b) > 0 \<longrightarrow>
    trade_history (PaperTradeSimulator_init b) \<noteq> []
    \<and> side (last (trade_history (PaperTradeSimulator_init b))) = ''BUY''"
    by (simp add: PaperTradeSimulator_init_def)
  then have "holdings (run_trades (PaperTradeSimulator_init b) cs) > 0 \<longrightarrow>
     trade_history (run_trades (PaperTradeSimulator_init b) cs) \<noteq> []
     \<and> side (last (trade_history (run_trades (PaperTradeSimulator_init b) cs))) = ''BUY''"
    by (rule run_trades_keeps_last_buy)
  with assms have h: "trade_history (run_trades (PaperTradeSimulator_init b) cs) \<noteq> []
     \<and> side (last (trade_history (run_trades (PaperTradeSimulator_init b) cs))) = ''BUY''"
    by simp
  then show ?thesis using execute_trade_index_error by blast
qed

theorem sell_branch_last_record_is_buy_witness:
  "holdings (run_trades (PaperTradeSimulator_init 256) [(''BUY'', 64)]) > 0
   \<and> trade_history (run_trades (PaperTradeSimulator_init 256) [(''BUY'', 64)]) \<noteq> []
   \<and> side (last (trade_history (run_trades (PaperTradeSimulator_init 256) [(''BUY'', 64)]))) = ''BUY''
   \<and> fst (execute_trade (run_trades (PaperTradeSimulator_init 256) [(''BUY'', 64)]) ''SELL'' 128)
       \<noteq> Inl IndexError"
proof -
  have h: "holdings (run_trades (PaperTradeSimulator_init 256) [(''BUY'', 64)]) > 0"
    by (subst run_256_64) simp
  from sell_branch_last_record_is_buy [OF h, of 128] h show ?thesis by blast
qed

text \<open>
  Claim C9. In every simulator reached from an initial one by calls of
  \<^verbatim>\<open>execute_trade\<close>, \<open>wins + losses\<close> is the number of SELL records of the ledger, and the
  number of BUY records is the number of records minus wins minus losses; every call
  keeps the first equality.
\<close>

theorem wins_losses_count_sells:
  "wins (run_trades (PaperTradeSimulator_init b) cs) + losses (run_trades (PaperTradeSimulator_init b) cs)
     = sell_count (run_trades (PaperTradeSimulator_init b) cs)
   \<and> buy_count (run_trades (PaperTradeSimulator_init b) cs)
     = length (trade_history (run_trades (PaperTradeSimulator_init b) cs))
       - wins (run_trades (PaperTradeSimulator_init b) cs)
       - losses (run_trades (PaperTradeSimulator_init b) cs)
   \<and> (wins s + losses s = sell_count s \<longrightarrow>
        wins (snd (execute_trade s signal p)) + losses (snd (execute_trade s signal p))
          = sell_count (snd (execute_trade s signal p)))"
proof -
  have i: "wins (PaperTradeSimulator_init b) + losses (PaperTradeSimulator_init b)
      = sell_count (PaperTradeSimulator_init b)"
    "buy_count (PaperTradeSimulator_init b) + sell_count (PaperTradeSimulator_init b)
      = length (trade_history (PaperTradeSimulator_init b))"
    by (simp_all add: PaperTradeSimulator_init_def sell_count_def buy_count_def)
  have step: "wins s + losses s = sell_count s \<longrightarrow>
        wins (snd (execute_trade s signal p)) + losses (snd (execute_trade s signal p))
          = sell_count (snd (execute_trade s signal p))"
    by (simp add: execute_trade_def Let_def sell_count_def)
  from run_trades_counts [OF i, of cs]
  have a: "wins (run_trades (PaperTradeSimulator_init b) cs)
      + losses (run_trades (PaperTradeSimulator_init b) cs)
      = sell_count (run_trades (PaperTradeSimulator_init b) cs)"
    and c: "buy_count (run_trades (PaperTradeSimulator_init b) cs)
      + sell_count (run_trades (PaperTradeSimulator_init b) cs)
      = length (trade_history (run_trades (PaperTradeSimulator_init b) cs))"
    by simp_all
  from a c have "buy_count (run_trades (PaperTradeSimulator_init b) cs)
     = length (trade_history (run_trades (PaperTradeSimulator_init b) cs))
       - wins (run_trades (PaperTradeSimulator_init b) cs)
       - losses (run_trades (PaperTradeSimulator_init b) cs)"
    by linarith
  with a step show ?thesis by blast
qed

theorem wins_losses_count_sells_witness:
  "wins (run_trades (PaperTradeSimulator_init 256) [(''BUY'', 64), (''SELL'', 128)]) = 1
   \<and> losses (run_trades (PaperTradeSimulator_init 256) [(''BUY'', 64), (''SELL'', 128)]) = 0
   \<and> sell_count (run_trades (PaperTradeSimulator_init 256) [(''BUY'', 64), (''SELL'', 128)]) = 1
   \<and> buy_count (run_trades (PaperTradeSimulator_init 256) [(''BUY'', 64), (''SELL'', 128)]) = 1
   \<and> wins (run_trades (PaperTradeSimulator_init 256) [(''BUY'', 64)])
       + losses (run_trades (PaperTradeSimulator_init 256) [(''BUY'', 64)])
       = sell_count (run_trades (PaperTradeSimulator_init 256) [(''BUY'', 64)])
   \<and> wins (snd (execute_trade (run_trades (PaperTradeSimulator_init 256) [(''BUY'', 64)]) ''SELL'' 128))
       + losses (snd (execute_trade (run_trades (PaperTradeSimulator_init 256) [(''BUY'', 64)]) ''SELL'' 128))
       = sell_count (snd (execute_trade (run_trades (PaperTradeSimulator_init 256) [(''BUY'', 64)]) ''SELL'' 128))"
proof -
  have w: "wins (run_trades (PaperTradeSimulator_init 256) [(''BUY'', 64), (''SELL'', 128)]) = 1"
    and l: "losses (run_trades (PaperTradeSimulator_init 256) [(''BUY'', 64), (''SELL'', 128)]) = 0"
    and t: "length (trade_history
      (run_trades (PaperTradeSimulator_init 256) [(''BUY'', 64), (''SELL'', 128)])) = 2"
    by (simp_all add: PaperTradeSimulator_init_def execute_trade_def Let_def)
  note c = wins_losses_count_sells [of 256 "[(''BUY'', 64), (''SELL'', 128)]"
      "run_trades (PaperTradeSimulator_init 256) [(''BUY'', 64)]" "''SELL''" 128]
  have h: "wins (run_trades (PaperTradeSimulator_init 256) [(''BUY'', 64)])
       + losses (run_trades (PaperTradeSimulator_init 256) [(''BUY'', 64)])
       = sell_count (run_trades (PaperTradeSimulator_init 256) [(''BUY'', 64)])"
    by (subst (1 2 3) run_256_64) (simp add: sell_count_def)
  from c w l have s: "sell_count (run_trades (PaperTradeSimulator_init 256) [(''BUY'', 64), (''SELL'', 128)]) = 1"
    by simp
  from c w l t have b: "buy_count (run_trades (PaperTradeSimulator_init 256) [(''BUY'', 64), (''SELL'', 128)]) = 1"
    by simp
  from c h have "wins (snd (execute_trade (run_trades (PaperTradeSimulator_init 256) [(''BUY'', 64)]) ''SELL'' 128))
       + losses (snd (execute_trade (run_trades (PaperTradeSimulator_init 256) [(''BUY'', 64)]) ''SELL'' 128))
       = sell_count (snd (execute_trade (run_trades (PaperTradeSimulator_init 256) [(''BUY'', 64)]) ''SELL'' 128))"
    by blast
  with w l s b h show ?thesis by blast
qed

section \<open>Signals\<close>

lemmas float_eval =
  float_sum_def float_add_def float_mul_def float_div_def double_round_def binade_def
  bit_length.simps pow2_def round_half_even_def Let_def

lemma replicate_unfold: "replicate (numeral k) x = x # replicate (pred_numeral k) x"
  by (simp add: numeral_eq_Suc)

text \<open>The literal \<^verbatim>\<open>1.001\<close> as a double, and two products with it.\<close>

lemma double_1_001: "double_round 1.001 = 2254051613498933 / 2 ^ 51"
  by (simp add: float_eval)

lemma float_mul_1000: "float_mul 1000 (double_round 1.001) = 8804889115230207 / 2 ^ 43"
  by (simp add: float_eval)

lemma float_mul_2: "float_mul 2 (double_round 1.001) = 2254051613498933 / 2 ^ 50"
  by (simp add: float_eval)

lemma generate_signal_not_buy:
  "fst (generate_signal e) \<noteq> ''BUY'' \<Longrightarrow> snd (generate_signal e) = e"
  by (auto simp: generate_signal_def Let_def split: if_splits)

lemma generate_signal_buy:
  assumes "fst (generate_signal e) = ''BUY''"
  shows "snd (generate_signal e) = e\<lparr>last_buy_price := Some (last (prices e))\<rparr>"
    and "length (prices e) \<ge> 16"
    and "float_div (float_sum (last_n 8 (prices e))) 8
           > float_div (float_sum (last_n 16 (prices e))) 16"
    and "last_buy_price e = Some b \<Longrightarrow> last (prices e) > float_mul b (double_round 1.001)"
  using assms by (simp_all add: generate_signal_def Let_def split: if_splits)

lemma generate_signal_range:
  "fst (generate_signal e) = ''BUY'' \<or> fst (generate_signal e) = ''SELL''
   \<or> fst (generate_signal e) = ''HOLD''"
  by (simp add: generate_signal_def Let_def)

lemma generate_signal_short: "length (prices e) < 16 \<Longrightarrow> generate_signal e = (''HOLD'', e)"
  by (simp add: generate_signal_def)

lemma generate_signal_buy_example:
  "generate_signal \<lparr>prices = replicate 8 1 @ replicate 8 2, last_buy_price = None\<rparr>
  = (''BUY'', \<lparr>prices = replicate 8 1 @ replicate 8 2, last_buy_price = Some 2\<rparr>)"
  by (simp add: generate_signal_def last_n_def replicate_unfold float_eval)

lemma generate_signal_sell_example:
  "generate_signal \<lparr>prices = replicate 8 2 @ replicate 8 1, last_buy_price = Some 2\<rparr>
  = (''SELL'', \<lparr>prices = replicate 8 2 @ replicate 8 1, last_buy_price = Some 2\<rparr>)"
  by (simp add: generate_signal_def last_n_def replicate_unfold float_eval)

lemma generate_signal_hold_example:
  "generate_signal \<lparr>prices = replicate 8 1 @ replicate 8 2, last_buy_price = Some 2\<rparr>
  = (''HOLD'', \<lparr>prices = replicate 8 1 @ replicate 8 2, last_buy_price = Some 2\<rparr>)"
  by (simp add: generate_signal_def last_n_def replicate_unfold float_eval)

text \<open>
  Sixteen equal prices of 64000.07: the rounded partial sums make the mean of the last 8
  larger than the mean of the last 16, and the signal is BUY.
\<close>

lemma generate_signal_flat_example:
  "fst (generate_signal \<lparr>prices = replicate 16 (double_round 64000.07), last_buy_price = None\<rparr>)
     = ''BUY''"
  by (simp add: generate_signal_def last_n_def replicate_unfold float_eval)

lemma update_price_last:
  "prices (update_price e p) \<noteq> [] \<and> last (prices (update_price e p)) = p"
proof (cases "prices e")
  case Nil
  then show ?thesis by (simp add: update_price_prices)
next
  case (Cons x xs)
  then show ?thesis by (simp add: update_price_prices)
qed

lemma generate_signal_suppressed:
  assumes "last_buy_price e = Some P" "last (prices e) \<le> float_mul P (double_round 1.001)"
  shows "fst (generate_signal e) \<noteq> ''BUY'' \<and> snd (generate_signal e) = e"
  using assms by (simp add: generate_signal_def Let_def)

lemma engine_run_keeps_last_buy_price:
  assumes "last_buy_price e = Some P" "''BUY'' \<notin> set (fst (engine_run e cs))"
  shows "last_buy_price (snd (engine_run e cs)) = Some P"
  using assms
proof (induction e cs rule: engine_run.induct)
  case (1 e)
  then show ?case by simp
next
  case (2 e p cs)
  have "last_buy_price (update_price e p) = Some P"
    using 2 by (simp add: update_price_last_buy_price)
  moreover have "''BUY'' \<notin> set (fst (engine_run (update_price e p) cs))"
    using 2 by simp
  ultimately show ?case using "2.IH" by simp
next
  case (3 e cs)
  from "3.prems"(2) have n: "fst (generate_signal e) \<noteq> ''BUY''"
    by (auto simp: Let_def)
  then have g: "snd (generate_signal e) = e"
    by (rule generate_signal_not_buy)
  from "3.prems"(2) have r: "''BUY'' \<notin> set (fst (engine_run (snd (generate_signal e)) cs))"
    by (simp add: Let_def)
  from "3.prems"(1) g have "last_buy_price (snd (generate_signal e)) = Some P"
    by simp
  with r have "last_buy_price (snd (engine_run (snd (generate_signal e)) cs)) = Some P"
    using "3.IH" by simp
  then show ?case by (simp add: Let_def)
qed

lemma engine_run_suppressed:
  assumes "last_buy_price e = Some P" "last (prices e) \<le> float_mul P (double_round 1.001)"
    "\<forall>p\<in>set (observed cs). p \<le> float_mul P (double_round 1.001)"
  shows "''BUY'' \<notin> set (fst (engine_run e cs))
    \<and> last_buy_price (snd (engine_run e cs)) = Some P"
  using assms
proof (induction e cs rule: engine_run.induct)
  case (1 e)
  then show ?case by simp
next
  case (2 e p cs)
  have "last_buy_price (update_price e p) = Some P"
    using 2 by (simp add: update_price_last_buy_price)
  moreover have "last (prices (update_price e p)) \<le> float_mul P (double_round 1.001)"
    using 2 by (simp add: update_price_last)
  moreover have "\<forall>p\<in>set (observed cs). p \<le> float_mul P (double_round 1.001)"
    using 2 by simp
  ultimately show ?case using "2.IH" by simp
next
  case (3 e cs)
  from 3 have g: "fst (generate_signal e) \<noteq> ''BUY''" "snd (generate_signal e) = e"
    using generate_signal_suppressed [of e P] by simp_all
  with 3 show ?case by (simp add: Let_def)
qed

lemma engine_run_signals:
  "set (fst (engine_run e cs)) \<subseteq> {''BUY'', ''SELL'', ''HOLD''}"
proof (induction e cs rule: engine_run.induct)
  case (1 e)
  then show ?case by simp
next
  case (2 e p cs)
  then show ?case by simp
next
  case (3 e cs)
  with generate_signal_range [of e] show ?case by (auto simp: Let_def)
qed

text \<open>
  Claim C10. \<^verbatim>\<open>generate_signal\<close> never changes the list of prices. A call that returns BUY
  changes the engine only in \<open>last_buy_price\<close>, which becomes the latest price; a call that
  returns SELL or HOLD, the call on fewer than 16 prices among them, leaves the engine as
  it was. No other signal is returned.
\<close>

theorem generate_signal_frame:
  "prices (snd (generate_signal e)) = prices e
   \<and> (fst (generate_signal e) = ''BUY'' \<longrightarrow>
        snd (generate_signal e) = e\<lparr>last_buy_price := Some (last (prices e))\<rparr>)
   \<and> (fst (generate_signal e) = ''SELL'' \<or> fst (generate_signal e) = ''HOLD'' \<longrightarrow>
        snd (generate_signal e) = e)
   \<and> (length (prices e) < 16 \<longrightarrow> generate_signal e = (''HOLD'', e))
   \<and> (fst (generate_signal e) = ''BUY'' \<or> fst (generate_signal e) = ''SELL''
        \<or> fst (generate_signal e) = ''HOLD'')"
proof -
  have "fst (generate_signal e) = ''SELL'' \<or> fst (generate_signal e) = ''HOLD'' \<longrightarrow>
        snd (generate_signal e) = e"
    using generate_signal_not_buy [of e] by auto
  then show ?thesis
    using generate_signal_prices [of e] generate_signal_buy(1) [of e]
      generate_signal_short [of e] generate_signal_range [of e]
    by blast
qed

theorem generate_signal_frame_witness:
  "fst (generate_signal \<lparr>prices = replicate 8 1 @ replicate 8 2, last_buy_price = None\<rparr>) = ''BUY''
   \<and> snd (generate_signal \<lparr>prices = replicate 8 1 @ replicate 8 2, last_buy_price = None\<rparr>)
       = \<lparr>prices = replicate 8 1 @ replicate 8 2, last_buy_price = Some 2\<rparr>
   \<and> fst (generate_signal \<lparr>prices = replicate 8 2 @ replicate 8 1, last_buy_price = Some 2\<rparr>) = ''SELL''
   \<and> snd (generate_signal \<lparr>prices = replicate 8 2 @ replicate 8 1, last_buy_price = Some 2\<rparr>)
       = \<lparr>prices = replicate 8 2 @ replicate 8 1, last_buy_price = Some 2\<rparr>
   \<and> length (prices \<lparr>prices = [1, 2], last_buy_price = None\<rparr>) < 16
   \<and> generate_signal \<lparr>prices = [1, 2], last_buy_price = None\<rparr>
       = (''HOLD'', \<lparr>prices = [1, 2], last_buy_price = None\<rparr>)"
proof -
  have b: "fst (generate_signal \<lparr>prices = replicate 8 1 @ replicate 8 2, last_buy_price = None\<rparr>) = ''BUY''"
    by (simp add: generate_signal_buy_example)
  have s: "fst (generate_signal \<lparr>prices = replicate 8 2 @ replicate 8 1, last_buy_price = Some 2\<rparr>) = ''SELL''"
    by (simp add: generate_signal_sell_example)
  have l: "length (prices \<lparr>prices = [1, 2], last_buy_price = None\<rparr>) < 16"
    by simp
  from b generate_signal_frame [of "\<lparr>prices = replicate 8 1 @ replicate 8 2, last_buy_price = None\<rparr>"]
  have b': "snd (generate_signal \<lparr>prices = replicate 8 1 @ replicate 8 2, last_buy_price = None\<rparr>)
       = \<lparr>prices = replicate 8 1 @ replicate 8 2, last_buy_price = None\<rparr>
          \<lparr>last_buy_price := Some (last (prices \<lparr>prices = replicate 8 1 @ replicate 8 2, last_buy_price = None\<rparr>))\<rparr>"
    by blast
  from s generate_signal_frame [of "\<lparr>prices = replicate 8 2 @ replicate 8 1, last_buy_price = Some 2\<rparr>"]
  have s': "snd (generate_signal \<lparr>prices = replicate 8 2 @ replicate 8 1, last_buy_price = Some 2\<rparr>)
       = \<lparr>prices = replicate 8 2 @ replicate 8 1, last_buy_price = Some 2\<rparr>"
    by blast
  from l generate_signal_frame [of "\<lparr>prices = [1, 2], last_buy_price = None\<rparr>"]
  have l': "generate_signal \<lparr>prices = [1, 2], last_buy_price = None\<rparr>
       = (''HOLD'', \<lparr>prices = [1, 2], last_buy_price = None\<rparr>)"
    by blast
  from b' have b'': "snd (generate_signal \<lparr>prices = replicate 8 1 @ replicate 8 2, last_buy_price = None\<rparr>)
       = \<lparr>prices = replicate 8 1 @ replicate 8 2, last_buy_price = Some 2\<rparr>"
    by simp
  from b b'' s s' l l' show ?thesis by blast
qed

text \<open>
  Claim C5 says that after a BUY at \<open>P\<close> no call returns BUY while the latest price is at
  most \<open>P * 1.001\<close>. The code compares the latest price with the product as the machine
  computes it, which can be below the exact product: after a BUY at 1000 the product is
  \<open>8804889115230207 / 2 ^ 43\<close>, just below 1001, and a tick at 1001 returns BUY again.
\<close>

theorem rebuy_at_exact_threshold_counterexample:
  "generate_signal \<lparr>prices = replicate 8 999 @ replicate 8 1000, last_buy_price = None\<rparr>
     = (''BUY'', \<lparr>prices = replicate 8 999 @ replicate 8 1000, last_buy_price = Some 1000\<rparr>)
   \<and> (1001 :: real) \<le> 1000 * 1.001
   \<and> generate_signal
       (update_price \<lparr>prices = replicate 8 999 @ replicate 8 1000, last_buy_price = Some 1000\<rparr> 1001)
     = (''BUY'', \<lparr>prices = replicate 8 999 @ replicate 8 1000 @ [1001], last_buy_price = Some 1001\<rparr>)"
  by (simp add: generate_signal_def update_price_def last_n_def replicate_unfold float_eval)

text \<open>
  Claim C5, amended. Let the last buy price be \<open>P\<close>, and take any sequence of
  \<^verbatim>\<open>update_price\<close> and \<^verbatim>\<open>generate_signal\<close> calls, at whatever prices, in which no call
  returns BUY. Then the last buy price is still \<open>P\<close>. If the latest price is at most the
  double product of \<open>P\<close> and 1.001, the next \<^verbatim>\<open>generate_signal\<close> call returns HOLD or SELL
  and changes nothing, even when the short average exceeds the long one. If the next call
  returns BUY, the latest price exceeds that product, and it becomes the last buy price.
  Every \<^verbatim>\<open>generate_signal\<close> call between two BUYs is the next call after the calls before
  it, so this covers each of them.
\<close>

theorem rebuy_suppressed_until_price_rises:
  assumes "last_buy_price e = Some P" and "''BUY'' \<notin> set (fst (engine_run e cs))"
  shows "last_buy_price (snd (engine_run e cs)) = Some P
    \<and> (last (prices (snd (engine_run e cs))) \<le> float_mul P (double_round 1.001) \<longrightarrow>
         (fst (generate_signal (snd (engine_run e cs))) = ''HOLD''
          \<or> fst (generate_signal (snd (engine_run e cs))) = ''SELL'')
         \<and> snd (generate_signal (snd (engine_run e cs))) = snd (engine_run e cs))
    \<and> (fst (generate_signal (snd (engine_run e cs))) = ''BUY'' \<longrightarrow>
         last (prices (snd (engine_run e cs))) > float_mul P (double_round 1.001)
         \<and> last_buy_price (snd (generate_signal (snd (engine_run e cs))))
             = Some (last (prices (snd (engine_run e cs)))))"
proof -
  have k: "last_buy_price (snd (engine_run e cs)) = Some P"
    using assms by (rule engine_run_keeps_last_buy_price)
  have h: "last (prices (snd (engine_run e cs))) \<le> float_mul P (double_round 1.001) \<longrightarrow>
         (fst (generate_signal (snd (engine_run e cs))) = ''HOLD''
          \<or> fst (generate_signal (snd (engine_run e cs))) = ''SELL'')
         \<and> snd (generate_signal (snd (engine_run e cs))) = snd (engine_run e cs)"
    using generate_signal_suppressed [OF k] generate_signal_range [of "snd (engine_run e cs)"]
    by blast
  have b: "fst (generate_signal (snd (engine_run e cs))) = ''BUY'' \<longrightarrow>
         last (prices (snd (engine_run e cs))) > float_mul P (double_round 1.001)
         \<and> last_buy_price (snd (generate_signal (snd (engine_run e cs))))
             = Some (last (prices (snd (engine_run e cs))))"
  proof
    assume g: "fst (generate_signal (snd (engine_run e cs))) = ''BUY''"
    have "snd (generate_signal (snd (engine_run e cs)))
        = (snd (engine_run e cs))\<lparr>last_buy_price := Some (last (prices (snd (engine_run e cs))))\<rparr>"
      using g by (rule generate_signal_buy(1))
    then have "last_buy_price (snd (generate_signal (snd (engine_run e cs))))
        = Some (last (prices (snd (engine_run e cs))))"
      by simp
    moreover have "last (prices (snd (engine_run e cs))) > float_mul P (double_round 1.001)"
      using g k by (rule generate_signal_buy(4))
    ultimately show "last (prices (snd (engine_run e cs))) > float_mul P (double_round 1.001)
         \<and> last_buy_price (snd (generate_signal (snd (engine_run e cs))))
             = Some (last (prices (snd (engine_run e cs))))"
      by simp
  qed
  from k h b show ?thesis by blast
qed

text \<open>
  A run after a BUY at 2: the price dips to 0.5, a tick at 3 (above the threshold) returns
  SELL because the short average is below the long one; the price dips again and comes
  back to 2. The short average (2) then exceeds the long one (1.25), but the last buy
  price is still 2 and the signal is HOLD. Had the price come back to 3, the signal
  would be BUY.
\<close>

lemma observe_all_small:
  "length (prices e) + length ps \<le> 50 \<Longrightarrow> observe_all e ps = e\<lparr>prices := prices e @ ps\<rparr>"
proof (induction ps arbitrary: e)
  case Nil
  then show ?case by (simp add: observe_all_def)
next
  case (Cons p ps)
  have s: "observe_all e (p # ps) = observe_all (update_price e p) ps"
    by (simp add: observe_all_def)
  from Cons.prems have u: "update_price e p = e\<lparr>prices := prices e @ [p]\<rparr>"
    by (simp add: update_price_def Let_def)
  with Cons.prems have "length (prices (update_price e p)) + length ps \<le> 50"
    by simp
  then have "observe_all (update_price e p) ps
      = (update_price e p)\<lparr>prices := prices (update_price e p) @ ps\<rparr>"
    by (rule Cons.IH)
  with s u show ?case by simp
qed

lemma engine_run_observe_then:
  "engine_run e (map Observe ps @ cs) = engine_run (observe_all e ps) cs"
  by (induction ps arbitrary: e) (simp_all add: observe_all_def)

lemma dip_sell:
  "generate_signal
     \<lparr>prices = replicate 8 1 @ replicate 8 2 @ replicate 7 0.5 @ [3], last_buy_price = Some 2\<rparr>
   = (''SELL'',
     \<lparr>prices = replicate 8 1 @ replicate 8 2 @ replicate 7 0.5 @ [3], last_buy_price = Some 2\<rparr>)"
  by (simp add: generate_signal_def last_n_def replicate_unfold float_eval)

lemma dip_and_return_run:
  "engine_run \<lparr>prices = replicate 8 1 @ replicate 8 2, last_buy_price = Some 2\<rparr>
     (map Observe (replicate 7 0.5 @ [3]) @ Evaluate
        # map Observe (replicate 8 0.5 @ replicate 8 2))
   = ([''SELL''],
      \<lparr>prices = replicate 8 1 @ replicate 8 2 @ replicate 7 0.5 @ [3] @ replicate 8 0.5
          @ replicate 8 2,
       last_buy_price = Some 2\<rparr>)"
proof -
  have a: "observe_all \<lparr>prices = replicate 8 1 @ replicate 8 2, last_buy_price = Some 2\<rparr>
        (replicate 7 0.5 @ [3])
      = \<lparr>prices = replicate 8 1 @ replicate 8 2 @ replicate 7 0.5 @ [3], last_buy_price = Some 2\<rparr>"
    by (subst observe_all_small) simp_all
  have b: "observe_all
        \<lparr>prices = replicate 8 1 @ replicate 8 2 @ replicate 7 0.5 @ [3], last_buy_price = Some 2\<rparr>
        (replicate 8 0.5 @ replicate 8 2)
      = \<lparr>prices = replicate 8 1 @ replicate 8 2 @ replicate 7 0.5 @ [3] @ replicate 8 0.5
          @ replicate 8 2, last_buy_price = Some 2\<rparr>"
    by (subst observe_all_small) simp_all
  have c: "engine_run
        \<lparr>prices = replicate 8 1 @ replicate 8 2 @ replicate 7 0.5 @ [3], last_buy_price = Some 2\<rparr>
        (map Observe (replicate 8 0.5 @ replicate 8 2))
      = ([], \<lparr>prices = replicate 8 1 @ replicate 8 2 @ replicate 7 0.5 @ [3] @ replicate 8 0.5
          @ replicate 8 2, last_buy_price = Some 2\<rparr>)"
    using engine_run_observe_then
      [of "\<lparr>prices = replicate 8 1 @ replicate 8 2 @ replicate 7 0.5 @ [3], last_buy_price = Some 2\<rparr>"
        "replicate 8 0.5 @ replicate 8 2" "[]"]
    by (simp only: b append_Nil2 engine_run.simps)
  show ?thesis
    by (simp only: engine_run_observe_then a engine_run.simps dip_sell c Let_def fst_conv snd_conv)
qed

lemma dip_and_return_hold:
  "generate_signal
     \<lparr>prices = replicate 8 1 @ replicate 8 2 @ replicate 7 0.5 @ [3] @ replicate 8 0.5
          @ replicate 8 2,
       last_buy_price = Some 2\<rparr>
   = (''HOLD'',
     \<lparr>prices = replicate 8 1 @ replicate 8 2 @ replicate 7 0.5 @ [3] @ replicate 8 0.5
          @ replicate 8 2,
       last_buy_price = Some 2\<rparr>)"
  by (simp add: generate_signal_def last_n_def replicate_unfold float_eval)

lemma rise_run:
  "engine_run \<lparr>prices = replicate 8 1 @ replicate 8 2, last_buy_price = Some 2\<rparr> [Observe 3]
   = ([], \<lparr>prices = replicate 8 1 @ replicate 8 2 @ [3], last_buy_price = Some 2\<rparr>)"
  by (simp add: update_price_def)

lemma rise_buy:
  "generate_signal \<lparr>prices = replicate 8 1 @ replicate 8 2 @ [3], last_buy_price = Some 2\<rparr>
   = (''BUY'', \<lparr>prices = replicate 8 1 @ replicate 8 2 @ [3], last_buy_price = Some 3\<rparr>)"
  by (simp add: generate_signal_def last_n_def replicate_unfold float_eval)

theorem rebuy_suppressed_until_price_rises_witness:
  "fst (engine_run \<lparr>prices = replicate 8 1 @ replicate 8 2, last_buy_price = Some 2\<rparr>
     (map Observe (replicate 7 0.5 @ [3]) @ Evaluate
        # map Observe (replicate 8 0.5 @ replicate 8 2))) = [''SELL'']
   \<and> last_buy_price (snd (engine_run \<lparr>prices = replicate 8 1 @ replicate 8 2, last_buy_price = Some 2\<rparr>
     (map Observe (replicate 7 0.5 @ [3]) @ Evaluate
        # map Observe (replicate 8 0.5 @ replicate 8 2)))) = Some 2
   \<and> last (prices (snd (engine_run \<lparr>prices = replicate 8 1 @ replicate 8 2, last_buy_price = Some 2\<rparr>
     (map Observe (replicate 7 0.5 @ [3]) @ Evaluate
        # map Observe (replicate 8 0.5 @ replicate 8 2))))) \<le> float_mul 2 (double_round 1.001)
   \<and> fst (generate_signal (snd (engine_run \<lparr>prices = replicate 8 1 @ replicate 8 2, last_buy_price = Some 2\<rparr>
     (map Observe (replicate 7 0.5 @ [3]) @ Evaluate
        # map Observe (replicate 8 0.5 @ replicate 8 2))))) = ''HOLD''
   \<and> fst (generate_signal (snd (engine_run
        \<lparr>prices = replicate 8 1 @ replicate 8 2, last_buy_price = Some 2\<rparr> [Observe 3]))) = ''BUY''
   \<and> last (prices (snd (engine_run
        \<lparr>prices = replicate 8 1 @ replicate 8 2, last_buy_price = Some 2\<rparr> [Observe 3])))
       > float_mul 2 (double_round 1.001)
   \<and> last_buy_price (snd (generate_signal (snd (engine_run
        \<lparr>prices = replicate 8 1 @ replicate 8 2, last_buy_price = Some 2\<rparr> [Observe 3])))) = Some 3"
proof -
  have p: "last_buy_price \<lparr>prices = replicate 8 1 @ replicate 8 2, last_buy_price = Some 2\<rparr> = Some 2"
    by simp
  have r: "fst (engine_run \<lparr>prices = replicate 8 1 @ replicate 8 2, last_buy_price = Some 2\<rparr>
     (map Observe (replicate 7 0.5 @ [3]) @ Evaluate
        # map Observe (replicate 8 0.5 @ replicate 8 2))) = [''SELL'']"
    by (simp only: dip_and_return_run fst_conv)
  then have n: "''BUY'' \<notin> set (fst (engine_run \<lparr>prices = replicate 8 1 @ replicate 8 2, last_buy_price = Some 2\<rparr>
     (map Observe (replicate 7 0.5 @ [3]) @ Evaluate
        # map Observe (replicate 8 0.5 @ replicate 8 2))))"
    by simp
  have l: "last (prices (snd (engine_run \<lparr>prices = replicate 8 1 @ replicate 8 2, last_buy_price = Some 2\<rparr>
     (map Observe (replicate 7 0.5 @ [3]) @ Evaluate
        # map Observe (replicate 8 0.5 @ replicate 8 2))))) \<le> float_mul 2 (double_round 1.001)"
    by (simp only: dip_and_return_run snd_conv float_mul_2) simp
  have h: "fst (generate_signal (snd (engine_run \<lparr>prices = replicate 8 1 @ replicate 8 2, last_buy_price = Some 2\<rparr>
     (map Observe (replicate 7 0.5 @ [3]) @ Evaluate
        # map Observe (replicate 8 0.5 @ replicate 8 2))))) = ''HOLD''"
    by (simp only: dip_and_return_run dip_and_return_hold fst_conv snd_conv)
  have n2: "''BUY'' \<notin> set (fst (engine_run
        \<lparr>prices = replicate 8 1 @ replicate 8 2, last_buy_price = Some 2\<rparr> [Observe 3]))"
    by (simp only: rise_run fst_conv) simp
  have b: "fst (generate_signal (snd (engine_run
        \<lparr>prices = replicate 8 1 @ replicate 8 2, last_buy_price = Some 2\<rparr> [Observe 3]))) = ''BUY''"
    by (simp only: rise_run rise_buy fst_conv snd_conv)
  have e3: "last (prices (snd (engine_run
        \<lparr>prices = replicate 8 1 @ replicate 8 2, last_buy_price = Some 2\<rparr> [Observe 3]))) = 3"
    by (simp only: rise_run snd_conv) simp
  note t1 = rebuy_suppressed_until_price_rises [OF p n]
  note t2 = rebuy_suppressed_until_price_rises [OF p n2]
  from t1 have k: "last_buy_price (snd (engine_run \<lparr>prices = replicate 8 1 @ replicate 8 2, last_buy_price = Some 2\<rparr>
     (map Observe (replicate 7 0.5 @ [3]) @ Evaluate
        # map Observe (replicate 8 0.5 @ replicate 8 2)))) = Some 2"
    by blast
  from t2 b have c: "last (prices (snd (engine_run
        \<lparr>prices = replicate 8 1 @ replicate 8 2, last_buy_price = Some 2\<rparr> [Observe 3])))
       > float_mul 2 (double_round 1.001)
     \<and> last_buy_price (snd (generate_signal (snd (engine_run
        \<lparr>prices = replicate 8 1 @ replicate 8 2, last_buy_price = Some 2\<rparr> [Observe 3]))))
       = Some (last (prices (snd (engine_run
        \<lparr>prices = replicate 8 1 @ replicate 8 2, last_buy_price = Some 2\<rparr> [Observe 3]))))"
    by blast
  from c e3 have c': "last_buy_price (snd (generate_signal (snd (engine_run
        \<lparr>prices = replicate 8 1 @ replicate 8 2, last_buy_price = Some 2\<rparr> [Observe 3])))) = Some 3"
    by (simp only:)
  from r k l h b c c' show ?thesis by blast
qed

section \<open>The loop on a failed fetch\<close>

text \<open>A pass whose fetch brings a price goes through, and the loop goes on to the next pass.\<close>

lemma trade_dashboard_two_passes:
  "trade_dashboard dashboard_init [(Amount 100, False), (Amount 100, True)] =
     Inr \<lparr>strategy = \<lparr>prices = [100, 100], last_buy_price = None\<rparr>,
          simulator = PaperTradeSimulator_init 230,
          trade_message = Some NoTradeExecuted\<rparr>"
  by (simp add: dashboard_init_def TradeEngine_init_def PaperTradeSimulator_init_def
      get_price_def trade_step_def draw_ui_def loop_body_def update_price_def
      generate_signal_def execute_trade_def Let_def)

text \<open>
  Claim C3 says that a pass whose fetch fails is skipped, shows a status and is followed by
  the next pass. In the code such a pass does skip \<^verbatim>\<open>update_price\<close>, \<^verbatim>\<open>generate_signal\<close> and
  \<^verbatim>\<open>execute_trade\<close>, so engine and simulator stay as they were; but the drawing code then
  formats the price \<^verbatim>\<open>None\<close> with \<^verbatim>\<open>.2f\<close>, which raises \<^verbatim>\<open>TypeError\<close>. Nothing catches
  it, so the loop ends there, whatever the later passes would have brought.
\<close>

theorem feed_failure_ends_loop:
  "trade_step d (get_price RequestFailed) = Inr d
   \<and> trade_step d (get_price Malformed) = Inr d
   \<and> loop_body d RequestFailed = Inl TypeError
   \<and> loop_body d Malformed = Inl TypeError
   \<and> trade_dashboard d ((RequestFailed, q) # ts) = Inl TypeError
   \<and> trade_dashboard d ((Malformed, q) # ts) = Inl TypeError"
  by (simp add: get_price_def trade_step_def draw_ui_def loop_body_def)

end
